theory Spec2Isabelle
  imports Main "HOL-Library.Word"
begin

section \<open>Falling-sand simulator: the grid, painting, gravity and the stroke rasterizer\<close>

text \<open>
  A shallow embedding of \<^verbatim>\<open>src/main.c\<close>. The C program keeps one array
  \<^verbatim>\<open>Point points[ROWS][COLS]\<close> that every function mutates through a pointer; the model
  passes the array explicitly and returns the updated one. C's \<^verbatim>\<open>int\<close> is modelled by
  \<open>int\<close>; where the source's arithmetic could leave the 32-bit range (only in
  \<^verbatim>\<open>drawLine\<close>) the model reports the fault \<open>SignedOverflow\<close> instead of a value.
\<close>

subsection \<open>Constants and data\<close>

definition WIDTH :: int where
  "WIDTH = 640"

definition HEIGHT :: int where
  "HEIGHT = 480"

definition SCALING_FACTOR :: int where
  "SCALING_FACTOR = 10"

text \<open>
  \<^verbatim>\<open>#define COLS WIDTH / SCALING_FACTOR\<close> and \<^verbatim>\<open>#define ROWS HEIGHT / SCALING_FACTOR\<close>:
  both operands are positive, so C's truncating division and \<open>div\<close> agree.
\<close>

definition COLS :: int where
  "COLS = WIDTH div SCALING_FACTOR"

definition ROWS :: int where
  "ROWS = HEIGHT div SCALING_FACTOR"

text \<open>
  \<^verbatim>\<open>typedef struct { Uint8 r; Uint8 g; Uint8 b; } Color;\<close> The fields carry the prefix
  \<open>color_\<close> so that the one-letter names stay free for variables.
\<close>

record Color =
  color_r :: "8 word"
  color_g :: "8 word"
  color_b :: "8 word"

text \<open>\<^verbatim>\<open>typedef struct { int exists; Color color; } Point;\<close>\<close>

record Point =
  exists :: int
  color :: Color

text \<open>
  The array \<^verbatim>\<open>points[ROWS][COLS]\<close>, indexed \<^verbatim>\<open>points[row][col]\<close>: a function of the
  pair \<open>(row, col)\<close>. Only indices with \<open>0 \<le> row < ROWS\<close> and \<open>0 \<le> col < COLS\<close> belong
  to the array; an access with any other index is undefined behaviour in C and is the fault
  \<open>IndexOutOfRange\<close> in the model.
\<close>

type_synonym grid = "int \<times> int \<Rightarrow> Point"

datatype fault = IndexOutOfRange | SignedOverflow

definition in_grid :: "int \<Rightarrow> int \<Rightarrow> bool" where
  "in_grid row col \<longleftrightarrow> 0 \<le> row \<and> row < ROWS \<and> 0 \<le> col \<and> col < COLS"

text \<open>A read of \<^verbatim>\<open>points[row][col]\<close> that is not guarded by a bounds check in the source.\<close>

definition rd :: "grid \<Rightarrow> int \<Rightarrow> int \<Rightarrow> fault + Point" where
  "rd points row col =
     (if in_grid row col then Inr (points (row, col)) else Inl IndexOutOfRange)"

text \<open>The unguarded assignment \<^verbatim>\<open>points[row][col].exists = v\<close>.\<close>

definition wr_exists :: "grid \<Rightarrow> int \<Rightarrow> int \<Rightarrow> int \<Rightarrow> fault + grid" where
  "wr_exists points row col v =
     (if in_grid row col then Inr (points((row, col) := (points (row, col))\<lparr>exists := v\<rparr>))
      else Inl IndexOutOfRange)"

subsection \<open>addNewPoint\<close>

text \<open>
  \<^verbatim>\<open>int addNewPoint(Point points[ROWS][COLS], int col, int row, Color color)\<close>:
  the result is the returned \<^verbatim>\<open>int\<close> (\<open>-1\<close> out of bounds, \<open>0\<close> otherwise) together with
  the array after the call.
\<close>

definition addNewPoint :: "grid \<Rightarrow> int \<Rightarrow> int \<Rightarrow> Color \<Rightarrow> int \<times> grid" where
  "addNewPoint points col row c =
     (if col < 0 \<or> col \<ge> COLS \<or> row < 0 \<or> row \<ge> ROWS then (-1, points)
      else (0, points((row, col) := \<lparr>exists = 1, color = c\<rparr>)))"

subsection \<open>varyColor\<close>

text \<open>
  \<^verbatim>\<open>rand()\<close> is the C library's generator, seeded from the clock in \<^verbatim>\<open>main\<close>; the model
  takes its output sequence as the parameter \<open>rnd\<close> (the \<open>k\<close>-th call returns \<open>rnd k\<close>, a
  non-negative number, so \<^verbatim>\<open>%\<close> is \<open>mod\<close>) and threads the number of calls made so far.
  \<^verbatim>\<open>varyColor\<close> makes three calls, one per statement, and stores each sum in a \<^verbatim>\<open>Uint8\<close>.
\<close>

definition varyColor :: "(nat \<Rightarrow> nat) \<Rightarrow> nat \<Rightarrow> Color" where
  "varyColor rnd k =
     \<lparr>color_r = of_nat (200 + rnd k mod 20),
      color_g = of_nat (170 + rnd (k + 1) mod 20),
      color_b = of_nat (60 + rnd (k + 2) mod 10)\<rparr>"

subsection \<open>sandGravity\<close>

text \<open>
  One pass through the body of \<^verbatim>\<open>while (falling == 1)\<close> in \<^verbatim>\<open>sandGravity\<close>, as written:
  the first test reads \<^verbatim>\<open>points[row][col + 1]\<close>, the second \<^verbatim>\<open>points[row + 1][col - 1]\<close>,
  the third \<^verbatim>\<open>points[row + 1][col + 1]\<close>; a test that succeeds stores \<open>-1\<close> in the
  \<^verbatim>\<open>exists\<close> field of \<^verbatim>\<open>points[row][col]\<close> and calls \<^verbatim>\<open>addNewPoint\<close> (whose return
  value the source drops); \<^verbatim>\<open>col\<close> and \<^verbatim>\<open>row\<close> are never assigned. None of the three
  reads is guarded, so each goes through \<open>rd\<close>. The result is the array and the value of
  \<^verbatim>\<open>falling\<close> after the pass.
\<close>

definition sandGravity_body :: "Color \<Rightarrow> int \<Rightarrow> int \<Rightarrow> grid \<Rightarrow> fault + (grid \<times> int)" where
  "sandGravity_body c col row points =
     (case rd points row (col + 1) of
        Inl e \<Rightarrow> Inl e
      | Inr p1 \<Rightarrow>
          if exists p1 = 0 then
            (case wr_exists points row col (- 1) of
               Inl e \<Rightarrow> Inl e
             | Inr points' \<Rightarrow> Inr (snd (addNewPoint points' (col + 1) row c), 1))
          else
            (case rd points (row + 1) (col - 1) of
               Inl e \<Rightarrow> Inl e
             | Inr p2 \<Rightarrow>
                 if exists p2 = 0 then
                   (case wr_exists points row col (- 1) of
                      Inl e \<Rightarrow> Inl e
                    | Inr points' \<Rightarrow> Inr (snd (addNewPoint points' (col - 1) (row + 1) c), 1))
                 else
                   (case rd points (row + 1) (col + 1) of
                      Inl e \<Rightarrow> Inl e
                    | Inr p3 \<Rightarrow>
                        if exists p3 = 0 then
                          (case wr_exists points row col (- 1) of
                             Inl e \<Rightarrow> Inl e
                           | Inr points' \<Rightarrow>
                               Inr (snd (addNewPoint points' (col - 1) (row + 1) c), 1))
                        else Inr (points, 0))))"

text \<open>
  The loop itself. It need not end, so it is a partial function into \<open>option\<close>: \<open>None\<close>
  means that the loop runs forever, \<open>Some (Inl e)\<close> that it hit undefined behaviour,
  \<open>Some (Inr points')\<close> that it left the loop with the array \<open>points'\<close>.
\<close>

partial_function (option) sandGravity_loop ::
  "Color \<Rightarrow> int \<Rightarrow> int \<Rightarrow> grid \<Rightarrow> (fault + grid) option" where
  "sandGravity_loop c col row points =
     (case sandGravity_body c col row points of
        Inl e \<Rightarrow> Some (Inl e)
      | Inr (points', falling) \<Rightarrow>
          if falling = 1 then sandGravity_loop c col row points' else Some (Inr points'))"

text \<open>
  \<^verbatim>\<open>int sandGravity(Point points[ROWS][COLS], int col, int row)\<close>: reads the color of
  \<^verbatim>\<open>points[row][col]\<close> (unguarded), then runs the loop. The function's own return value is
  always \<open>0\<close>; the model returns the array. After the first read has succeeded, \<open>col\<close> and
  \<open>row\<close> are inside the grid, so \<open>col + 1\<close>, \<open>col - 1\<close> and \<open>row + 1\<close> cannot overflow.
\<close>

definition sandGravity :: "grid \<Rightarrow> int \<Rightarrow> int \<Rightarrow> (fault + grid) option" where
  "sandGravity points col row =
     (case rd points row col of
        Inl e \<Rightarrow> Some (Inl e)
      | Inr p \<Rightarrow> sandGravity_loop (color p) col row points)"

subsection \<open>Counting grains\<close>

text \<open>
  All indices of the array in row-major order, and the number of cells that hold a grain.
  \<^verbatim>\<open>drawAllPoints\<close> draws the cells with \<^verbatim>\<open>exists == 1\<close> (\<open>occupied_count\<close>); the
  tests of \<^verbatim>\<open>sandGravity\<close> and \<^verbatim>\<open>drawLine\<close> take every cell with \<^verbatim>\<open>exists != 0\<close> as
  taken (\<open>nonempty_count\<close>).
\<close>

definition grid_cells :: "(int \<times> int) list" where
  "grid_cells = List.product [0..ROWS - 1] [0..COLS - 1]"

definition occupied_count :: "grid \<Rightarrow> nat" where
  "occupied_count points = length (filter (\<lambda>cell. exists (points cell) = 1) grid_cells)"

definition nonempty_count :: "grid \<Rightarrow> nat" where
  "nonempty_count points = length (filter (\<lambda>cell. exists (points cell) \<noteq> 0) grid_cells)"

subsection \<open>drawAllPoints\<close>

text \<open>
  \<^verbatim>\<open>drawAllPoints\<close> clears the renderer and draws every cell with \<^verbatim>\<open>exists == 1\<close>, rows
  outermost. The renderer is outside the program; the model returns what is handed to it:
  the list of \<open>(col, row, color)\<close> in drawing order.
\<close>

definition drawAllPoints :: "grid \<Rightarrow> (int \<times> int \<times> Color) list" where
  "drawAllPoints points =
     map (\<lambda>(row, col). (col, row, color (points (row, col))))
       (filter (\<lambda>cell. exists (points cell) = 1) grid_cells)"

subsection \<open>drawLine\<close>

definition INT_MAX :: int where
  "INT_MAX = 2147483647"

definition INT_MIN :: int where
  "INT_MIN = - 2147483648"

definition fits_int :: "int \<Rightarrow> bool" where
  "fits_int v \<longleftrightarrow> INT_MIN \<le> v \<and> v \<le> INT_MAX"

text \<open>
  The first statement of the loop body: a guarded read, then \<^verbatim>\<open>addNewPoint\<close> with a fresh
  color where the cell has \<^verbatim>\<open>exists == 0\<close>. (\<open>x\<close> is the column, \<open>y\<close> the row.)
\<close>

definition drawLine_paint :: "(nat \<Rightarrow> nat) \<Rightarrow> grid \<Rightarrow> nat \<Rightarrow> int \<Rightarrow> int \<Rightarrow> grid \<times> nat" where
  "drawLine_paint rnd points k x y =
     (if x \<ge> 0 \<and> x < COLS \<and> y \<ge> 0 \<and> y < ROWS then
        (if exists (points (y, x)) = 0
         then (snd (addNewPoint points x y (varyColor rnd k)), k + 3)
         else (points, k))
      else (points, k))"

text \<open>
  The rest of the body after the \<^verbatim>\<open>break\<close> test: \<^verbatim>\<open>e2 = 2 * err\<close>, then the two
  conditional updates, in the source's order. Every signed operation whose result would not
  fit \<^verbatim>\<open>int\<close> is the fault \<open>SignedOverflow\<close>.
\<close>

definition drawLine_advance ::
  "int \<Rightarrow> int \<Rightarrow> int \<Rightarrow> int \<Rightarrow> int \<Rightarrow> int \<Rightarrow> int \<Rightarrow> fault + (int \<times> int \<times> int)" where
  "drawLine_advance dx dy sx sy x y err =
     (if \<not> fits_int (2 * err) then Inl SignedOverflow
      else
        let e2 = 2 * err in
        if e2 > - dy \<and> (\<not> fits_int (err - dy) \<or> \<not> fits_int (x + sx)) then Inl SignedOverflow
        else
          let err1 = (if e2 > - dy then err - dy else err);
              xa = (if e2 > - dy then x + sx else x)
          in
          if e2 < dx \<and> (\<not> fits_int (err1 + dx) \<or> \<not> fits_int (y + sy)) then Inl SignedOverflow
          else Inr (xa, (if e2 < dx then y + sy else y), (if e2 < dx then err1 + dx else err1)))"

text \<open>
  \<^verbatim>\<open>while (1)\<close> with its \<^verbatim>\<open>break\<close>: \<open>None\<close> is a loop that never reaches the end point.
\<close>

partial_function (option) drawLine_loop ::
  "(nat \<Rightarrow> nat) \<Rightarrow> int \<Rightarrow> int \<Rightarrow> int \<Rightarrow> int \<Rightarrow> int \<Rightarrow> int \<Rightarrow> int \<Rightarrow> int \<Rightarrow> int \<Rightarrow> grid \<Rightarrow> nat \<Rightarrow>
     (fault + grid \<times> nat) option" where
  "drawLine_loop rnd dx dy sx sy x2 y2 x y err points k =
     (case drawLine_paint rnd points k x y of
        (points', k') \<Rightarrow>
          if x = x2 \<and> y = y2 then Some (Inr (points', k'))
          else
            (case drawLine_advance dx dy sx sy x y err of
               Inl e \<Rightarrow> Some (Inl e)
             | Inr (xa, ya, erra) \<Rightarrow> drawLine_loop rnd dx dy sx sy x2 y2 xa ya erra points' k'))"

text \<open>
  \<^verbatim>\<open>int drawLine(SDL_Renderer *renderer, Point points[ROWS][COLS], int x1, int y1, int x2, int y2)\<close>.
  The renderer is not used by the body and is left out. \<^verbatim>\<open>abs\<close> of a difference that does
  not fit, or of \<^verbatim>\<open>INT_MIN\<close>, is undefined; \<open>dx - dy\<close> is a difference of two
  non-negative \<^verbatim>\<open>int\<close>s and always fits. The result is the array and the number of
  \<^verbatim>\<open>rand()\<close> calls made so far.
\<close>

definition drawLine ::
  "(nat \<Rightarrow> nat) \<Rightarrow> nat \<Rightarrow> grid \<Rightarrow> int \<Rightarrow> int \<Rightarrow> int \<Rightarrow> int \<Rightarrow> (fault + grid \<times> nat) option" where
  "drawLine rnd k points x1 y1 x2 y2 =
     (if \<not> fits_int (x2 - x1) \<or> x2 - x1 = INT_MIN \<or> \<not> fits_int (y2 - y1) \<or> y2 - y1 = INT_MIN
      then Some (Inl SignedOverflow)
      else
        let dx = \<bar>x2 - x1\<bar>;
            dy = \<bar>y2 - y1\<bar>;
            sx = (if x1 < x2 then 1 else - 1);
            sy = (if y1 < y2 then 1 else - 1);
            err = dx - dy
        in drawLine_loop rnd dx dy sx sy x2 y2 x1 y1 err points k)"

text \<open>
  The cells the loop of \<^verbatim>\<open>drawLine\<close> visits, as \<open>(x, y)\<close> pairs in the order of the visits:
  the same stepping without the painting. This is the line between the end points that the
  rasterizer draws.
\<close>

partial_function (option) line_loop ::
  "int \<Rightarrow> int \<Rightarrow> int \<Rightarrow> int \<Rightarrow> int \<Rightarrow> int \<Rightarrow> int \<Rightarrow> int \<Rightarrow> int \<Rightarrow> (int \<times> int) list option" where
  "line_loop dx dy sx sy x2 y2 x y err =
     (if x = x2 \<and> y = y2 then Some [(x, y)]
      else
        (case drawLine_advance dx dy sx sy x y err of
           Inl e \<Rightarrow> Some [(x, y)]
         | Inr (xa, ya, erra) \<Rightarrow>
             Option.bind (line_loop dx dy sx sy x2 y2 xa ya erra)
               (\<lambda>cells. Some ((x, y) # cells))))"

definition line_cells :: "int \<Rightarrow> int \<Rightarrow> int \<Rightarrow> int \<Rightarrow> (int \<times> int) list option" where
  "line_cells x1 y1 x2 y2 =
     (let dx = \<bar>x2 - x1\<bar>;
          dy = \<bar>y2 - y1\<bar>;
          sx = (if x1 < x2 then 1 else - 1);
          sy = (if y1 < y2 then 1 else - 1)
      in line_loop dx dy sx sy x2 y2 x1 y1 (dx - dy))"

text \<open>
  The end points for which the properties of \<^verbatim>\<open>drawLine\<close> are stated: coordinates of
  magnitude at most \<open>2\<^sup>2\<^sup>8\<close>, far beyond any grid cell or window pixel. For these no
  operation of the loop leaves the range of \<^verbatim>\<open>int\<close>.
\<close>

definition MAX_COORD :: int where
  "MAX_COORD = 268435456"

text \<open>
  The loop invariant of \<^verbatim>\<open>drawLine\<close>: \<open>rx\<close> and \<open>ry\<close> are the numbers of column and row
  steps still to take; \<open>err\<close> is determined by them, and \<open>2 * err\<close> stays between
  \<open>- 3 * dy\<close> and \<open>3 * dx\<close>.
\<close>

definition line_inv ::
  "int \<Rightarrow> int \<Rightarrow> int \<Rightarrow> int \<Rightarrow> int \<Rightarrow> int \<Rightarrow> int \<Rightarrow> int \<Rightarrow> int \<Rightarrow> int \<Rightarrow> int \<Rightarrow> bool" where
  "line_inv dx dy sx sy x2 y2 x y err rx ry \<longleftrightarrow>
     (sx = 1 \<or> sx = - 1) \<and> (sy = 1 \<or> sy = - 1) \<and>
     0 \<le> rx \<and> rx \<le> dx \<and> 0 \<le> ry \<and> ry \<le> dy \<and>
     x2 = x + sx * rx \<and> y2 = y + sy * ry \<and>
     err = dx - dy + rx * dy - ry * dx \<and>
     - 3 * dy \<le> 2 * err \<and> 2 * err \<le> 3 * dx \<and>
     dx \<le> 2 * MAX_COORD \<and> dy \<le> 2 * MAX_COORD \<and>
     \<bar>x2\<bar> \<le> MAX_COORD \<and> \<bar>y2\<bar> \<le> MAX_COORD"

subsection \<open>The main loop\<close>

text \<open>
  The locals of \<^verbatim>\<open>main\<close> that live across iterations of \<^verbatim>\<open>while (!quit)\<close>, and the
  number of \<^verbatim>\<open>rand()\<close> calls made so far.
\<close>

record sim =
  points :: grid
  quit :: int
  mouseHeld :: bool
  prevX :: int
  prevY :: int
  rand_calls :: nat

text \<open>The event types the loop tells apart; every other SDL event is \<open>OTHER\<close>.\<close>

datatype event = MOUSEBUTTONDOWN | MOUSEBUTTONUP | QUIT | OTHER

text \<open>The three \<^verbatim>\<open>if\<close>s in the body of \<^verbatim>\<open>while (SDL_PollEvent(&event))\<close>.\<close>

definition handle_event :: "sim \<Rightarrow> event \<Rightarrow> sim" where
  "handle_event s ev =
     (let s1 = (if ev = MOUSEBUTTONDOWN then s\<lparr>mouseHeld := True\<rparr> else s);
          s2 = (if ev = MOUSEBUTTONUP
                then s1\<lparr>mouseHeld := False, prevX := - 1, prevY := - 1\<rparr> else s1)
      in (if ev = QUIT then s2\<lparr>quit := 1\<rparr> else s2))"

text \<open>C's \<^verbatim>\<open>/\<close> on \<^verbatim>\<open>int\<close> truncates towards zero.\<close>

definition c_div :: "int \<Rightarrow> int \<Rightarrow> int" where
  "c_div a b = sgn a * sgn b * (\<bar>a\<bar> div \<bar>b\<bar>)"

text \<open>
  The body of \<^verbatim>\<open>if (mouseHeld)\<close>; \<open>mouse\<close> is what \<^verbatim>\<open>SDL_GetMouseState\<close> reports. The
  message printed when \<^verbatim>\<open>addNewPoint\<close> fails is not modelled.
\<close>

definition paint_at_mouse :: "(nat \<Rightarrow> nat) \<Rightarrow> sim \<Rightarrow> int \<times> int \<Rightarrow> (fault + sim) option" where
  "paint_at_mouse rnd s mouse =
     (let mouseX = c_div (fst mouse) SCALING_FACTOR;
          mouseY = c_div (snd mouse) SCALING_FACTOR
      in
      if prevX s \<ge> 0 \<and> prevY s \<ge> 0 then
        (case drawLine rnd (rand_calls s) (points s) (prevX s) (prevY s) mouseX mouseY of
           None \<Rightarrow> None
         | Some (Inl e) \<Rightarrow> Some (Inl e)
         | Some (Inr (points', k')) \<Rightarrow>
             Some (Inr (s\<lparr>points := points', rand_calls := k', prevX := mouseX, prevY := mouseY\<rparr>)))
      else
        Some (Inr (s\<lparr>points := snd (addNewPoint (points s) mouseX mouseY
                                     (varyColor rnd (rand_calls s))),
                     rand_calls := rand_calls s + 3, prevX := mouseX, prevY := mouseY\<rparr>)))"

text \<open>
  One iteration of \<^verbatim>\<open>while (!quit)\<close>: drain the pending events, paint if the button is
  held, call \<^verbatim>\<open>drawAllPoints\<close>, sleep (not modelled). The result is the state after the
  iteration and what was handed to the renderer.
\<close>

definition frame ::
  "(nat \<Rightarrow> nat) \<Rightarrow> sim \<Rightarrow> event list \<Rightarrow> int \<times> int \<Rightarrow>
     (fault + sim \<times> (int \<times> int \<times> Color) list) option" where
  "frame rnd s evs mouse =
     (let s1 = foldl handle_event s evs in
      case (if mouseHeld s1 then paint_at_mouse rnd s1 mouse else Some (Inr s1)) of
        None \<Rightarrow> None
      | Some (Inl e) \<Rightarrow> Some (Inl e)
      | Some (Inr s2) \<Rightarrow> Some (Inr (s2, drawAllPoints (points s2))))"

text \<open>
  The initialisation loop of \<^verbatim>\<open>main\<close>: every \<^verbatim>\<open>exists\<close> field of the array becomes \<open>0\<close>;
  the colors keep whatever the uninitialised memory \<open>mem\<close> held.
\<close>

definition init_points :: "grid \<Rightarrow> grid" where
  "init_points mem = (\<lambda>(row, col). if in_grid row col then (mem (row, col))\<lparr>exists := 0\<rparr>
                                   else mem (row, col))"

subsection \<open>Grids used as concrete inputs\<close>

text \<open>
  Two colors from the band that \<^verbatim>\<open>varyColor\<close> produces, a cell holding a grain of a given
  color, and the grid in which every cell is empty (what the initialisation loop leaves
  when the memory held zeros).
\<close>

definition sand :: Color where
  "sand = \<lparr>color_r = 200, color_g = 170, color_b = 60\<rparr>"

definition ochre :: Color where
  "ochre = \<lparr>color_r = 219, color_g = 189, color_b = 69\<rparr>"

definition grain :: "Color \<Rightarrow> Point" where
  "grain c = \<lparr>exists = 1, color = c\<rparr>"

definition blank :: grid where
  "blank = (\<lambda>cell. \<lparr>exists = 0, color = \<lparr>color_r = 0, color_g = 0, color_b = 0\<rparr>\<rparr>)"

section \<open>Properties\<close>

subsection \<open>addNewPoint\<close>

lemma COLS_val: "COLS = 64"
  by (simp add: COLS_def WIDTH_def SCALING_FACTOR_def)

lemma ROWS_val: "ROWS = 48"
  by (simp add: ROWS_def HEIGHT_def SCALING_FACTOR_def)

text \<open>
  Claim C8. For every grid, every color and every \<open>(col, row)\<close> outside the grid,
  \<open>addNewPoint\<close> returns \<open>-1\<close> (the out-of-bounds result) and leaves the grid as it was; for
  every \<open>(col, row)\<close> inside the grid it returns \<open>0\<close> and the cell is occupied
  (\<open>exists = 1\<close>) with the given color, whatever it held before; no other cell changes.
\<close>

theorem addNewPoint_bounds:
  "(col < 0 \<or> col \<ge> COLS \<or> row < 0 \<or> row \<ge> ROWS \<longrightarrow>
      addNewPoint ps col row c = (-1, ps)) \<and>
   (0 \<le> col \<and> col < COLS \<and> 0 \<le> row \<and> row < ROWS \<longrightarrow>
      fst (addNewPoint ps col row c) = 0 \<and>
      exists (snd (addNewPoint ps col row c) (row, col)) = 1 \<and>
      color (snd (addNewPoint ps col row c) (row, col)) = c \<and>
      (\<forall>cell. cell \<noteq> (row, col) \<longrightarrow> snd (addNewPoint ps col row c) cell = ps cell))"
  by (auto simp: addNewPoint_def)

theorem addNewPoint_bounds_witness:
  "((64::int) < 0 \<or> 64 \<ge> COLS \<or> (0::int) < 0 \<or> 0 \<ge> ROWS) \<and>
   addNewPoint (blank((0, 3) := grain ochre)) 64 0 sand = (- 1, blank((0, 3) := grain ochre)) \<and>
   ((0::int) \<le> 3 \<and> 3 < COLS \<and> (0::int) \<le> 0 \<and> 0 < ROWS) \<and>
   fst (addNewPoint (blank((0, 3) := grain ochre)) 3 0 sand) = 0 \<and>
   exists (snd (addNewPoint (blank((0, 3) := grain ochre)) 3 0 sand) (0, 3)) = 1 \<and>
   color (snd (addNewPoint (blank((0, 3) := grain ochre)) 3 0 sand) (0, 3)) = sand"
  using addNewPoint_bounds [of 64 0 "blank((0, 3) := grain ochre)" sand]
    addNewPoint_bounds [of 3 0 "blank((0, 3) := grain ochre)" sand]
  by (simp add: COLS_val ROWS_val)

subsection \<open>Counting grains under updates\<close>

lemma distinct_grid_cells: "distinct grid_cells"
  by (simp add: grid_cells_def distinct_product)

lemma set_grid_cells: "cell \<in> set grid_cells \<longleftrightarrow> in_grid (fst cell) (snd cell)"
  by (cases cell) (auto simp: grid_cells_def in_grid_def)

lemma length_filter_upd:
  assumes "distinct xs" and "a \<in> set xs"
  shows "length (filter (\<lambda>x. P ((f(a := v)) x)) xs) + (if P (f a) then 1 else 0) =
         length (filter (\<lambda>x. P (f x)) xs) + (if P v then 1 else 0)"
  using assms
proof (induction xs)
  case Nil
  then show ?case by simp
next
  case (Cons x xs)
  show ?case
  proof (cases "x = a")
    case True
    with Cons.prems have "a \<notin> set xs" by simp
    then have "filter (\<lambda>x. P ((f(a := v)) x)) xs = filter (\<lambda>x. P (f x)) xs"
      by (intro filter_cong) auto
    with True show ?thesis by simp
  next
    case False
    with Cons show ?thesis by simp
  qed
qed

lemma occupied_count_upd:
  assumes "in_grid row col"
  shows "occupied_count (ps((row, col) := p)) =
         occupied_count ps + (if exists p = 1 then 1 else 0)
           - (if exists (ps (row, col)) = 1 then 1 else 0)"
proof -
  have "(row, col) \<in> set grid_cells"
    using assms by (simp add: set_grid_cells)
  from length_filter_upd [OF distinct_grid_cells this, of "\<lambda>q. exists q = 1" ps p]
  show ?thesis
    by (simp add: occupied_count_def split: if_splits)
qed

lemma nonempty_count_upd:
  assumes "in_grid row col"
  shows "nonempty_count (ps((row, col) := p)) =
         nonempty_count ps + (if exists p \<noteq> 0 then 1 else 0)
           - (if exists (ps (row, col)) \<noteq> 0 then 1 else 0)"
proof -
  have "(row, col) \<in> set grid_cells"
    using assms by (simp add: set_grid_cells)
  from length_filter_upd [OF distinct_grid_cells this, of "\<lambda>q. exists q \<noteq> 0" ps p]
  show ?thesis
    by (simp add: nonempty_count_def split: if_splits)
qed

lemma exists_blank: "exists (blank cell) = 0"
  by (simp add: blank_def)

lemma occupied_count_blank: "occupied_count blank = 0"
  by (simp add: occupied_count_def blank_def)

lemma nonempty_count_blank: "nonempty_count blank = 0"
  by (simp add: nonempty_count_def blank_def)

lemma filter_single:
  assumes "distinct xs" and "a \<in> set xs"
  shows "filter (\<lambda>x. x = a) xs = [a]"
  using assms by (induction xs) (auto simp: filter_empty_conv)

subsection \<open>A pass that changes nothing and asks for another never ends\<close>

lemma sandGravity_loop_stuck:
  assumes stuck: "sandGravity_body c col row ps = Inr (ps, 1)"
  shows "sandGravity_loop c col row ps = None"
proof (rule ccontr)
  assume "sandGravity_loop c col row ps \<noteq> None"
  then obtain r where r: "sandGravity_loop c col row ps = Some r"
    by auto
  have "(c, col, row, ps) \<noteq> (c, col, row, ps)"
  proof (rule sandGravity_loop.raw_induct
      [where P = "\<lambda>c' col' row' ps' r'. (c', col', row', ps') \<noteq> (c, col, row, ps)", OF _ r])
    fix f c' col' row' ps' r'
    assume IH: "\<And>c'' col'' row'' ps'' y. f c'' col'' row'' ps'' = Some y \<Longrightarrow>
                  (c'', col'', row'', ps'') \<noteq> (c, col, row, ps)"
      and step: "(case sandGravity_body c' col' row' ps' of
                    Inl e \<Rightarrow> Some (Inl e)
                  | Inr (points', falling) \<Rightarrow>
                      if falling = 1 then f c' col' row' points' else Some (Inr points')) = Some r'"
    show "(c', col', row', ps') \<noteq> (c, col, row, ps)"
    proof
      assume "(c', col', row', ps') = (c, col, row, ps)"
      with step stuck have "f c col row ps = Some r'"
        by simp
      from IH [OF this] show False
        by simp
    qed
  qed
  then show False
    by simp
qed

lemmas gravity_eval = sandGravity_def sandGravity_body_def rd_def wr_exists_def in_grid_def
  addNewPoint_def COLS_val ROWS_val grain_def blank_def sand_def ochre_def

subsection \<open>The gravity rule\<close>

text \<open>
  Claim C1 (conservation of grains in a gravity pass), evaluated on the code. Input: a sand
  grain at column 1 of row 0 and a ochre grain at column 2 of row 1, every other cell empty.
  The call returns; afterwards the sand grain is both at column 2 of row 0 and at column 0
  of row 1, and its old cell holds \<open>exists = -1\<close>: the number of cells with
  \<open>exists = 1\<close> went from 2 to 3, the number of cells with \<open>exists \<noteq> 0\<close> from 2 to 4.
\<close>

theorem sandGravity_duplicates_grain:
  "sandGravity (blank((0, 1) := grain sand, (1, 2) := grain ochre)) 1 0 =
     Some (Inr (blank((0, 1) := \<lparr>exists = - 1, color = sand\<rparr>, (1, 2) := grain ochre,
                      (0, 2) := grain sand, (1, 0) := grain sand))) \<and>
   occupied_count (blank((0, 1) := grain sand, (1, 2) := grain ochre)) = 2 \<and>
   occupied_count (blank((0, 1) := \<lparr>exists = - 1, color = sand\<rparr>, (1, 2) := grain ochre,
                      (0, 2) := grain sand, (1, 0) := grain sand)) = 3 \<and>
   nonempty_count (blank((0, 1) := grain sand, (1, 2) := grain ochre)) = 2 \<and>
   nonempty_count (blank((0, 1) := \<lparr>exists = - 1, color = sand\<rparr>, (1, 2) := grain ochre,
                      (0, 2) := grain sand, (1, 0) := grain sand)) = 4"
proof -
  have run: "sandGravity (blank((0, 1) := grain sand, (1, 2) := grain ochre)) 1 0 =
     Some (Inr (blank((0, 1) := \<lparr>exists = - 1, color = sand\<rparr>, (1, 2) := grain ochre,
                      (0, 2) := grain sand, (1, 0) := grain sand)))"
    by (simp add: gravity_eval sandGravity_loop.simps fun_upd_twist)
  have occ: "occupied_count (blank((0, 1) := grain sand, (1, 2) := grain ochre)) = 2"
    "occupied_count (blank((0, 1) := \<lparr>exists = - 1, color = sand\<rparr>, (1, 2) := grain ochre,
                      (0, 2) := grain sand, (1, 0) := grain sand)) = 3"
    by (simp_all add: occupied_count_upd occupied_count_blank exists_blank in_grid_def
        COLS_val ROWS_val grain_def)
  have ne: "nonempty_count (blank((0, 1) := grain sand, (1, 2) := grain ochre)) = 2"
    "nonempty_count (blank((0, 1) := \<lparr>exists = - 1, color = sand\<rparr>, (1, 2) := grain ochre,
                      (0, 2) := grain sand, (1, 0) := grain sand)) = 4"
    by (simp_all add: nonempty_count_upd nonempty_count_blank exists_blank in_grid_def
        COLS_val ROWS_val grain_def)
  from run occ ne show ?thesis
    by simp
qed

text \<open>
  Claim C3 (the grain moves straight down when the cell below is empty), evaluated on the
  code. Input: a sand grain at column 1 of row 0; the cell below it, column 1 of row 1, is
  empty; the cells at column 2 of row 0, column 0 of row 1 and column 2 of row 1 hold
  grains. The first test of the source looks at \<^verbatim>\<open>points[row][col + 1]\<close>, the cell to the
  right, so the call returns with the grid as it was: the grain is still at column 1 of
  row 0 and the cell below it is still empty.
\<close>

theorem sandGravity_ignores_cell_below:
  "sandGravity (blank((0, 1) := grain sand, (0, 2) := grain ochre,
                      (1, 0) := grain ochre, (1, 2) := grain ochre)) 1 0 =
     Some (Inr (blank((0, 1) := grain sand, (0, 2) := grain ochre,
                      (1, 0) := grain ochre, (1, 2) := grain ochre))) \<and>
   exists ((blank((0, 1) := grain sand, (0, 2) := grain ochre,
                  (1, 0) := grain ochre, (1, 2) := grain ochre)) (1, 1)) = 0 \<and>
   (blank((0, 1) := grain sand, (0, 2) := grain ochre,
          (1, 0) := grain ochre, (1, 2) := grain ochre)) (0, 1) = grain sand"
  by (simp add: gravity_eval sandGravity_loop.simps)

text \<open>
  Claim C4 (the grain moves to the cell below-right when below and below-left are taken),
  evaluated on the code. Input: a sand grain at column 1 of row 0; ochre grains to its right
  (column 2 of row 0), below (column 1 of row 1) and below-left (column 0 of row 1); the
  cell below-right, column 2 of row 1, is empty. One pass of the loop takes the third
  branch, which calls \<^verbatim>\<open>addNewPoint(points, col - 1, row + 1, color)\<close>: the ochre grain
  below-left is overwritten with sand, the cell below-right stays empty, and the pass asks
  for another one. That next pass starts from the same array and ends in the same array,
  so the call never returns.
\<close>

theorem sandGravity_down_right_writes_down_left:
  "sandGravity_body sand 1 0 (blank((0, 1) := grain sand, (0, 2) := grain ochre,
                                    (1, 1) := grain ochre, (1, 0) := grain ochre)) =
     Inr (blank((0, 1) := \<lparr>exists = - 1, color = sand\<rparr>, (0, 2) := grain ochre,
                (1, 1) := grain ochre, (1, 0) := grain sand), 1) \<and>
   exists ((blank((0, 1) := \<lparr>exists = - 1, color = sand\<rparr>, (0, 2) := grain ochre,
                  (1, 1) := grain ochre, (1, 0) := grain sand)) (1, 2)) = 0 \<and>
   sandGravity (blank((0, 1) := grain sand, (0, 2) := grain ochre,
                      (1, 1) := grain ochre, (1, 0) := grain ochre)) 1 0 = None"
proof -
  let ?g = "blank((0, 1) := grain sand, (0, 2) := grain ochre,
                  (1, 1) := grain ochre, (1, 0) := grain ochre)"
  let ?g' = "blank((0, 1) := \<lparr>exists = - 1, color = sand\<rparr>, (0, 2) := grain ochre,
                   (1, 1) := grain ochre, (1, 0) := grain sand)"
  have first: "sandGravity_body sand 1 0 ?g = Inr (?g', 1)"
    by (simp add: gravity_eval fun_upd_twist)
  have again: "sandGravity_body sand 1 0 ?g' = Inr (?g', 1)"
    by (simp add: gravity_eval fun_upd_twist)
  have "sandGravity ?g 1 0 = sandGravity_loop sand 1 0 ?g"
    by (simp add: sandGravity_def rd_def in_grid_def COLS_val ROWS_val grain_def)
  also have "\<dots> = sandGravity_loop sand 1 0 ?g'"
    by (subst sandGravity_loop.simps) (simp add: first)
  also have "\<dots> = None"
    by (rule sandGravity_loop_stuck [OF again])
  finally have "sandGravity ?g 1 0 = None" .
  moreover have "exists (?g' (1, 2)) = 0"
    by (simp add: exists_blank)
  ultimately show ?thesis
    using first by simp
qed

text \<open>
  Claim C5 (off-grid neighbours count as blocked and are never read), evaluated on the
  code. The three tests of the source index the array without a bounds check. For a grain
  in the rightmost column (column 63 of row 0) the first test reads
  \<^verbatim>\<open>points[0][64]\<close>; for a grain in the bottom row (column 1 of row 47, with a grain to
  its right) the second test reads \<^verbatim>\<open>points[48][0]\<close>; for a grain in the leftmost column
  (column 0 of row 0, with a grain to its right) the second test reads \<^verbatim>\<open>points[1][-1]\<close>.
\<close>

theorem sandGravity_reads_outside_grid:
  "sandGravity (blank((0, 63) := grain sand)) 63 0 = Some (Inl IndexOutOfRange) \<and>
   sandGravity (blank((47, 1) := grain sand, (47, 2) := grain ochre)) 1 47 =
     Some (Inl IndexOutOfRange) \<and>
   sandGravity (blank((0, 0) := grain sand, (0, 1) := grain ochre)) 0 0 =
     Some (Inl IndexOutOfRange)"
  by (simp add: gravity_eval sandGravity_loop.simps)

text \<open>
  Claim C6 (the settling loop ends), evaluated on the code. Input: one sand grain at
  column 1 of row 0 on an otherwise empty grid. The first pass copies the grain to the
  right, the second copies it below-left, and from the third pass on the test of the empty
  cell below-right succeeds every time without changing the array: the call never returns.
\<close>

theorem sandGravity_single_grain_diverges:
  "sandGravity (blank((0, 1) := grain sand)) 1 0 = None"
proof -
  let ?g0 = "blank((0, 1) := grain sand)"
  let ?g1 = "blank((0, 1) := \<lparr>exists = - 1, color = sand\<rparr>, (0, 2) := grain sand)"
  let ?g2 = "blank((0, 1) := \<lparr>exists = - 1, color = sand\<rparr>, (0, 2) := grain sand,
                   (1, 0) := grain sand)"
  have p1: "sandGravity_body sand 1 0 ?g0 = Inr (?g1, 1)"
    by (simp add: gravity_eval fun_upd_twist)
  have p2: "sandGravity_body sand 1 0 ?g1 = Inr (?g2, 1)"
    by (simp add: gravity_eval fun_upd_twist)
  have p3: "sandGravity_body sand 1 0 ?g2 = Inr (?g2, 1)"
    by (simp add: gravity_eval fun_upd_twist)
  have "sandGravity ?g0 1 0 = sandGravity_loop sand 1 0 ?g0"
    by (simp add: sandGravity_def rd_def in_grid_def COLS_val ROWS_val grain_def)
  also have "\<dots> = sandGravity_loop sand 1 0 ?g1"
    by (subst sandGravity_loop.simps) (simp add: p1)
  also have "\<dots> = sandGravity_loop sand 1 0 ?g2"
    by (subst sandGravity_loop.simps) (simp add: p2)
  also have "\<dots> = None"
    by (rule sandGravity_loop_stuck [OF p3])
  finally show ?thesis .
qed

text \<open>
  Claim C7 (a grain whose three lower neighbours are taken stays where it is and nothing
  else changes), evaluated on the code. Input: a sand grain at column 1 of row 0 with ochre
  grains below-left, below and below-right (columns 0, 1 and 2 of row 1); the cell to its
  right is empty. The first test of the source looks to the right, so the call stores
  \<open>-1\<close> in the grain's cell and puts the grain at column 2 of row 0.
\<close>

theorem sandGravity_moves_boxed_grain_right:
  "sandGravity (blank((0, 1) := grain sand, (1, 0) := grain ochre,
                      (1, 1) := grain ochre, (1, 2) := grain ochre)) 1 0 =
     Some (Inr (blank((0, 1) := \<lparr>exists = - 1, color = sand\<rparr>, (1, 0) := grain ochre,
                      (1, 1) := grain ochre, (1, 2) := grain ochre, (0, 2) := grain sand))) \<and>
   blank((0, 1) := \<lparr>exists = - 1, color = sand\<rparr>, (1, 0) := grain ochre,
         (1, 1) := grain ochre, (1, 2) := grain ochre, (0, 2) := grain sand) \<noteq>
   blank((0, 1) := grain sand, (1, 0) := grain ochre,
         (1, 1) := grain ochre, (1, 2) := grain ochre)"
proof -
  have "sandGravity (blank((0, 1) := grain sand, (1, 0) := grain ochre,
                      (1, 1) := grain ochre, (1, 2) := grain ochre)) 1 0 =
     Some (Inr (blank((0, 1) := \<lparr>exists = - 1, color = sand\<rparr>, (1, 0) := grain ochre,
                      (1, 1) := grain ochre, (1, 2) := grain ochre, (0, 2) := grain sand)))"
    by (simp add: gravity_eval sandGravity_loop.simps fun_upd_twist)
  moreover have "(blank((0, 1) := \<lparr>exists = - 1, color = sand\<rparr>, (1, 0) := grain ochre,
         (1, 1) := grain ochre, (1, 2) := grain ochre, (0, 2) := grain sand)) (0, 2) \<noteq>
     (blank((0, 1) := grain sand, (1, 0) := grain ochre,
         (1, 1) := grain ochre, (1, 2) := grain ochre)) (0, 2)"
    by (simp add: blank_def grain_def)
  ultimately show ?thesis
    by metis
qed

subsection \<open>The stroke rasterizer\<close>

lemma drawLine_advance_inv:
  assumes inv: "line_inv dx dy sx sy x2 y2 x y err rx ry"
    and notend: "\<not> (x = x2 \<and> y = y2)"
  shows "\<exists>xa ya erra rx' ry'.
           drawLine_advance dx dy sx sy x y err = Inr (xa, ya, erra) \<and>
           line_inv dx dy sx sy x2 y2 xa ya erra rx' ry' \<and>
           0 \<le> rx' + ry' \<and> rx' + ry' < rx + ry"
proof -
  from inv have s: "sx = 1 \<or> sx = - 1" "sy = 1 \<or> sy = - 1"
    and r: "0 \<le> rx" "rx \<le> dx" "0 \<le> ry" "ry \<le> dy"
    and e: "x2 = x + sx * rx" "y2 = y + sy * ry"
    and cf: "err = dx - dy + rx * dy - ry * dx"
    and lin: "- 3 * dy \<le> 2 * err" "2 * err \<le> 3 * dx"
    and b0: "dx \<le> 2 * MAX_COORD" "dy \<le> 2 * MAX_COORD" "\<bar>x2\<bar> \<le> MAX_COORD" "\<bar>y2\<bar> \<le> MAX_COORD"
    unfolding line_inv_def by blast+
  from b0 have b: "dx \<le> 536870912" "dy \<le> 536870912" "\<bar>x2\<bar> \<le> 268435456" "\<bar>y2\<bar> \<le> 268435456"
    by (simp_all add: MAX_COORD_def)
  have d: "0 \<le> dx" "0 \<le> dy" using r by linarith+
  have pos: "0 < rx \<or> 0 < ry"
    using notend e r by auto
  have xs: "0 < rx" if "2 * err > - dy"
  proof (rule ccontr)
    assume "\<not> 0 < rx"
    with r pos have rx0: "rx = 0" and "1 \<le> ry" by linarith+
    then have "1 * dx \<le> ry * dx" using d by (intro mult_right_mono) simp_all
    with cf rx0 have "err \<le> - dy" by simp
    with that d show False by linarith
  qed
  have ys: "0 < ry" if "2 * err < dx"
  proof (rule ccontr)
    assume "\<not> 0 < ry"
    with r pos have ry0: "ry = 0" and "1 \<le> rx" by linarith+
    then have "1 * dy \<le> rx * dy" using d by (intro mult_right_mono) simp_all
    with cf ry0 have "dx \<le> err" by simp
    with that d show False by linarith
  qed
  have some: "2 * err > - dy \<or> 2 * err < dx"
  proof (rule ccontr)
    assume "\<not> (2 * err > - dy \<or> 2 * err < dx)"
    then have "dx \<le> - dy" by linarith
    with d r pos show False by linarith
  qed
  define rx' where "rx' = (if 2 * err > - dy then rx - 1 else rx)"
  define ry' where "ry' = (if 2 * err < dx then ry - 1 else ry)"
  define xa where "xa = (if 2 * err > - dy then x + sx else x)"
  define ya where "ya = (if 2 * err < dx then y + sy else y)"
  define err1 where "err1 = (if 2 * err > - dy then err - dy else err)"
  define erra where "erra = (if 2 * err < dx then err1 + dx else err1)"
  have xb: "\<bar>x\<bar> \<le> 805306368" "\<bar>y\<bar> \<le> 805306368"
    using e s r b by auto
  have fit: "fits_int (2 * err)" "fits_int (err - dy)" "fits_int (x + sx)"
    "fits_int (err1 + dx)" "fits_int (y + sy)"
    using lin b d xb s by (auto simp: fits_int_def INT_MIN_def INT_MAX_def err1_def)
  have adv: "drawLine_advance dx dy sx sy x y err = Inr (xa, ya, erra)"
    using fit by (simp add: drawLine_advance_def Let_def xa_def ya_def erra_def err1_def)
  have r': "0 \<le> rx'" "rx' \<le> dx" "0 \<le> ry'" "ry' \<le> dy"
    using xs ys r by (auto simp: rx'_def ry'_def)
  have e': "x2 = xa + sx * rx'" "y2 = ya + sy * ry'"
    using e s by (auto simp: rx'_def ry'_def xa_def ya_def algebra_simps)
  have cf': "erra = dx - dy + rx' * dy - ry' * dx"
    using cf by (auto simp: rx'_def ry'_def erra_def err1_def algebra_simps)
  have lin': "- 3 * dy \<le> 2 * erra" "2 * erra \<le> 3 * dx"
    using lin d some by (auto simp: erra_def err1_def)
  have dec: "0 \<le> rx' + ry'" "rx' + ry' < rx + ry"
    using r' some by (auto simp: rx'_def ry'_def)
  have "line_inv dx dy sx sy x2 y2 xa ya erra rx' ry'"
    unfolding line_inv_def using s r' e' cf' lin' b0 by simp
  with adv dec show ?thesis by blast
qed


lemma drawLine_paint_frame:
  assumes "drawLine_paint rnd ps k x y = (ps1, k1)"
  shows "ps1 cell \<noteq> ps cell \<longrightarrow> cell = (y, x) \<and> in_grid y x \<and> exists (ps cell) = 0"
  using assms
  by (auto simp: drawLine_paint_def addNewPoint_def in_grid_def split: if_splits)

lemma drawLine_loop_frame:
  assumes "line_inv dx dy sx sy x2 y2 x y err rx ry"
  shows "\<exists>ps' k' cells.
           drawLine_loop rnd dx dy sx sy x2 y2 x y err ps k = Some (Inr (ps', k')) \<and>
           line_loop dx dy sx sy x2 y2 x y err = Some cells \<and>
           (\<forall>row col. ps' (row, col) \<noteq> ps (row, col) \<longrightarrow>
              (col, row) \<in> set cells \<and> in_grid row col \<and> exists (ps (row, col)) = 0)"
  using assms
proof (induction "nat (rx + ry)" arbitrary: x y err rx ry ps k rule: less_induct)
  case less
  obtain ps1 k1 where p: "drawLine_paint rnd ps k x y = (ps1, k1)"
    by (cases "drawLine_paint rnd ps k x y")
  note pf = drawLine_paint_frame [OF p]
  show ?case
  proof (cases "x = x2 \<and> y = y2")
    case True
    have "drawLine_loop rnd dx dy sx sy x2 y2 x y err ps k = Some (Inr (ps1, k1))"
      by (subst drawLine_loop.simps) (use p True in auto)
    moreover have "line_loop dx dy sx sy x2 y2 x y err = Some [(x, y)]"
      by (subst line_loop.simps) (simp add: True)
    moreover have "\<forall>row col. ps1 (row, col) \<noteq> ps (row, col) \<longrightarrow>
              (col, row) \<in> set [(x, y)] \<and> in_grid row col \<and> exists (ps (row, col)) = 0"
      using pf by auto
    ultimately show ?thesis by blast
  next
    case False
    from drawLine_advance_inv [OF less.prems False]
    obtain xa ya erra rx' ry' where
      adv: "drawLine_advance dx dy sx sy x y err = Inr (xa, ya, erra)" and
      inv': "line_inv dx dy sx sy x2 y2 xa ya erra rx' ry'" and
      dec: "0 \<le> rx' + ry'" "rx' + ry' < rx + ry"
      by blast
    from dec have "nat (rx' + ry') < nat (rx + ry)" by simp
    from less.hyps [OF this inv', of ps1 k1]
    obtain ps' k' cells where
      run: "drawLine_loop rnd dx dy sx sy x2 y2 xa ya erra ps1 k1 = Some (Inr (ps', k'))" and
      ln: "line_loop dx dy sx sy x2 y2 xa ya erra = Some cells" and
      fr: "\<forall>row col. ps' (row, col) \<noteq> ps1 (row, col) \<longrightarrow>
              (col, row) \<in> set cells \<and> in_grid row col \<and> exists (ps1 (row, col)) = 0"
      by blast
    have "drawLine_loop rnd dx dy sx sy x2 y2 x y err ps k = Some (Inr (ps', k'))"
      by (subst drawLine_loop.simps) (simp add: p False adv run)
    moreover have "line_loop dx dy sx sy x2 y2 x y err = Some ((x, y) # cells)"
      by (subst line_loop.simps) (simp add: False adv ln)
    moreover have "\<forall>row col. ps' (row, col) \<noteq> ps (row, col) \<longrightarrow>
              (col, row) \<in> set ((x, y) # cells) \<and> in_grid row col \<and> exists (ps (row, col)) = 0"
    proof (intro allI impI)
      fix row col
      assume ne: "ps' (row, col) \<noteq> ps (row, col)"
      show "(col, row) \<in> set ((x, y) # cells) \<and> in_grid row col \<and> exists (ps (row, col)) = 0"
      proof (cases "ps1 (row, col) = ps (row, col)")
        case True
        with ne have "ps' (row, col) \<noteq> ps1 (row, col)" by simp
        with fr have "(col, row) \<in> set cells \<and> in_grid row col \<and> exists (ps1 (row, col)) = 0"
          by blast
        with True show ?thesis by simp
      next
        case False
        with pf [of "(row, col)"] show ?thesis by auto
      qed
    qed
    ultimately show ?thesis by blast
  qed
qed

lemma line_loop_ends:
  assumes "line_inv dx dy sx sy x2 y2 x y err rx ry"
  shows "\<exists>cells. line_loop dx dy sx sy x2 y2 x y err = Some cells \<and>
           cells \<noteq> [] \<and> hd cells = (x, y) \<and> last cells = (x2, y2)"
  using assms
proof (induction "nat (rx + ry)" arbitrary: x y err rx ry rule: less_induct)
  case less
  show ?case
  proof (cases "x = x2 \<and> y = y2")
    case True
    have "line_loop dx dy sx sy x2 y2 x y err = Some [(x, y)]"
      by (subst line_loop.simps) (simp add: True)
    with True show ?thesis by simp
  next
    case False
    from drawLine_advance_inv [OF less.prems False]
    obtain xa ya erra rx' ry' where
      adv: "drawLine_advance dx dy sx sy x y err = Inr (xa, ya, erra)" and
      inv': "line_inv dx dy sx sy x2 y2 xa ya erra rx' ry'" and
      dec: "0 \<le> rx' + ry'" "rx' + ry' < rx + ry"
      by blast
    from dec have "nat (rx' + ry') < nat (rx + ry)" by simp
    from less.hyps [OF this inv']
    obtain cells where
      ln: "line_loop dx dy sx sy x2 y2 xa ya erra = Some cells" and
      ne: "cells \<noteq> []" and la: "last cells = (x2, y2)"
      by blast
    have "line_loop dx dy sx sy x2 y2 x y err = Some ((x, y) # cells)"
      by (subst line_loop.simps) (simp add: False adv ln)
    with ne la show ?thesis by simp
  qed
qed

lemma line_inv_start:
  assumes "\<bar>x1\<bar> \<le> MAX_COORD" "\<bar>y1\<bar> \<le> MAX_COORD" "\<bar>x2\<bar> \<le> MAX_COORD" "\<bar>y2\<bar> \<le> MAX_COORD"
  shows "line_inv (abs (x2 - x1)) (abs (y2 - y1)) (if x1 < x2 then 1 else - 1) (if y1 < y2 then 1 else - 1)
           x2 y2 x1 y1 ((abs (x2 - x1)) - (abs (y2 - y1))) (abs (x2 - x1)) (abs (y2 - y1))"
  using assms unfolding line_inv_def MAX_COORD_def
  by (auto simp: algebra_simps)

text \<open>
  Claim C10. For every grid and every pair of end points (coordinates of magnitude at most
  \<open>MAX_COORD\<close>), \<open>drawLine\<close> returns, without overflow, and the cells it visits form a
  line from \<open>(x1, y1)\<close> to \<open>(x2, y2)\<close>. A cell whose content differs afterwards is on that
  line, inside the grid, and had \<open>exists = 0\<close> before; so every cell that already held
  something (\<open>exists \<noteq> 0\<close>) is exactly as it was, occupancy and color, and so is every
  cell off the line.
\<close>

theorem drawLine_frame:
  assumes "\<bar>x1\<bar> \<le> MAX_COORD" and "\<bar>y1\<bar> \<le> MAX_COORD"
    and "\<bar>x2\<bar> \<le> MAX_COORD" and "\<bar>y2\<bar> \<le> MAX_COORD"
  shows "\<exists>ps' k' cells.
           drawLine rnd k ps x1 y1 x2 y2 = Some (Inr (ps', k')) \<and>
           line_cells x1 y1 x2 y2 = Some cells \<and>
           cells \<noteq> [] \<and> hd cells = (x1, y1) \<and> last cells = (x2, y2) \<and>
           (\<forall>row col. ps' (row, col) \<noteq> ps (row, col) \<longrightarrow>
              (col, row) \<in> set cells \<and> in_grid row col \<and> exists (ps (row, col)) = 0) \<and>
           (\<forall>cell. exists (ps cell) \<noteq> 0 \<longrightarrow> ps' cell = ps cell) \<and>
           (\<forall>row col. (col, row) \<notin> set cells \<longrightarrow> ps' (row, col) = ps (row, col))"
proof -
  have nofault: "\<not> (\<not> fits_int (x2 - x1) \<or> x2 - x1 = INT_MIN \<or>
                     \<not> fits_int (y2 - y1) \<or> y2 - y1 = INT_MIN)"
    using assms by (auto simp: fits_int_def INT_MIN_def INT_MAX_def MAX_COORD_def)
  note start = line_inv_start [OF assms]
  from drawLine_loop_frame [OF start, of rnd ps k]
  obtain ps' k' cells where
    run: "drawLine_loop rnd (abs (x2 - x1)) (abs (y2 - y1)) (if x1 < x2 then 1 else - 1)
            (if y1 < y2 then 1 else - 1) x2 y2 x1 y1 (abs (x2 - x1) - abs (y2 - y1)) ps k =
          Some (Inr (ps', k'))" and
    ln: "line_loop (abs (x2 - x1)) (abs (y2 - y1)) (if x1 < x2 then 1 else - 1)
            (if y1 < y2 then 1 else - 1) x2 y2 x1 y1 (abs (x2 - x1) - abs (y2 - y1)) =
         Some cells" and
    fr: "\<forall>row col. ps' (row, col) \<noteq> ps (row, col) \<longrightarrow>
              (col, row) \<in> set cells \<and> in_grid row col \<and> exists (ps (row, col)) = 0"
    by blast
  from line_loop_ends [OF start] ln
  have ends: "cells \<noteq> []" "hd cells = (x1, y1)" "last cells = (x2, y2)"
    by auto
  have "drawLine rnd k ps x1 y1 x2 y2 = Some (Inr (ps', k'))"
    unfolding drawLine_def Let_def using nofault run by simp
  moreover have "line_cells x1 y1 x2 y2 = Some cells"
    unfolding line_cells_def Let_def using ln by simp
  moreover have "\<forall>cell. exists (ps cell) \<noteq> 0 \<longrightarrow> ps' cell = ps cell"
    using fr by (metis surj_pair)
  moreover have "\<forall>row col. (col, row) \<notin> set cells \<longrightarrow> ps' (row, col) = ps (row, col)"
    using fr by blast
  ultimately show ?thesis
    using fr ends by blast
qed

theorem drawLine_frame_witness:
  "\<bar>0 :: int\<bar> \<le> MAX_COORD \<and> \<bar>3 :: int\<bar> \<le> MAX_COORD \<and> \<bar>2 :: int\<bar> \<le> MAX_COORD \<and>
   (\<exists>ps' k'. drawLine (\<lambda>n. n) 0 (blank((1, 1) := grain ochre)) 0 0 3 2 = Some (Inr (ps', k')) \<and>
      ps' (1, 1) = grain ochre \<and> ps' (48, 0) = blank (48, 0))"
proof -
  have h0: "\<bar>0 :: int\<bar> \<le> MAX_COORD" and h3: "\<bar>3 :: int\<bar> \<le> MAX_COORD"
    and h2: "\<bar>2 :: int\<bar> \<le> MAX_COORD"
    by (simp_all add: MAX_COORD_def)
  from drawLine_frame [OF h0 h0 h3 h2, of "\<lambda>n. n" 0 "blank((1, 1) := grain ochre)"]
  obtain ps' k' cells where
    run: "drawLine (\<lambda>n. n) 0 (blank((1, 1) := grain ochre)) 0 0 3 2 = Some (Inr (ps', k'))" and
    fr: "\<forall>row col. ps' (row, col) \<noteq> (blank((1, 1) := grain ochre)) (row, col) \<longrightarrow>
           (col, row) \<in> set cells \<and> in_grid row col \<and>
           exists ((blank((1, 1) := grain ochre)) (row, col)) = 0"
    by blast
  have "ps' (1, 1) = (blank((1, 1) := grain ochre)) (1, 1)"
    using fr [rule_format, of 1 1] by (auto simp: grain_def)
  moreover have "ps' (48, 0) = (blank((1, 1) := grain ochre)) (48, 0)"
    using fr [rule_format, of 48 0] by (auto simp: in_grid_def ROWS_val)
  ultimately show ?thesis
    using run h0 h3 h2 by simp
qed

lemma exists_init_points: "in_grid row col \<Longrightarrow> exists (init_points mem (row, col)) = 0"
  by (simp add: init_points_def)

lemma occupied_count_init_points: "occupied_count (init_points mem) = 0"
proof -
  have "filter (\<lambda>cell. exists (init_points mem cell) = 1) grid_cells = []"
    by (auto simp: filter_empty_conv set_grid_cells init_points_def)
  then show ?thesis
    by (simp add: occupied_count_def)
qed

lemma drawLine_row0_run:
  "drawLine rnd k (init_points mem) 0 0 5 0 =
     Some (Inr ((init_points mem)
       ((0, 0) := \<lparr>exists = 1, color = varyColor rnd k\<rparr>,
        (0, 1) := \<lparr>exists = 1, color = varyColor rnd (k + 3)\<rparr>,
        (0, 2) := \<lparr>exists = 1, color = varyColor rnd (k + 6)\<rparr>,
        (0, 3) := \<lparr>exists = 1, color = varyColor rnd (k + 9)\<rparr>,
        (0, 4) := \<lparr>exists = 1, color = varyColor rnd (k + 12)\<rparr>,
        (0, 5) := \<lparr>exists = 1, color = varyColor rnd (k + 15)\<rparr>), k + 18))"
  by (simp add: drawLine_def drawLine_loop.simps drawLine_paint_def drawLine_advance_def
      fits_int_def INT_MIN_def INT_MAX_def addNewPoint_def exists_init_points in_grid_def
      COLS_val ROWS_val Let_def add.commute)

text \<open>
  Claim C9. On an empty grid (the array after the initialisation loop of \<^verbatim>\<open>main\<close>),
  \<open>drawLine\<close> from \<open>(0, 0)\<close> to \<open>(5, 0)\<close> returns, and afterwards a cell of the grid is
  occupied exactly if it is in row 0 and its column is between 0 and 5: six cells, none
  of them outside row 0.
\<close>

theorem drawLine_row0_six_cells:
  "\<exists>ps' k'. drawLine rnd k (init_points mem) 0 0 5 0 = Some (Inr (ps', k')) \<and>
     (\<forall>row col. in_grid row col \<longrightarrow>
        (exists (ps' (row, col)) = 1) = (row = 0 \<and> 0 \<le> col \<and> col \<le> 5)) \<and>
     (\<forall>row col. in_grid row col \<longrightarrow>
        (exists (ps' (row, col)) \<noteq> 0) = (row = 0 \<and> 0 \<le> col \<and> col \<le> 5)) \<and>
     occupied_count ps' = 6"
proof -
  let ?ps = "(init_points mem)
       ((0, 0) := \<lparr>exists = 1, color = varyColor rnd k\<rparr>,
        (0, 1) := \<lparr>exists = 1, color = varyColor rnd (k + 3)\<rparr>,
        (0, 2) := \<lparr>exists = 1, color = varyColor rnd (k + 6)\<rparr>,
        (0, 3) := \<lparr>exists = 1, color = varyColor rnd (k + 9)\<rparr>,
        (0, 4) := \<lparr>exists = 1, color = varyColor rnd (k + 12)\<rparr>,
        (0, 5) := \<lparr>exists = 1, color = varyColor rnd (k + 15)\<rparr>)"
  have one: "(exists (?ps (row, col)) = 1) = (row = 0 \<and> 0 \<le> col \<and> col \<le> 5)"
    if "in_grid row col" for row col
    using that by (auto simp: exists_init_points)
  have nz: "(exists (?ps (row, col)) \<noteq> 0) = (row = 0 \<and> 0 \<le> col \<and> col \<le> 5)"
    if "in_grid row col" for row col
    using that by (auto simp: exists_init_points)
  have cnt: "occupied_count ?ps = 6"
    by (simp add: occupied_count_upd occupied_count_init_points exists_init_points
        in_grid_def COLS_val ROWS_val)
  from drawLine_row0_run [of rnd k mem] one nz cnt show ?thesis
    by blast
qed

theorem drawLine_row0_six_cells_witness:
  "in_grid 0 5 \<and> in_grid 0 6 \<and> in_grid 1 0 \<and>
   (\<exists>ps' k'. drawLine (\<lambda>n. n) 0 (init_points blank) 0 0 5 0 = Some (Inr (ps', k')) \<and>
      exists (ps' (0, 5)) = 1 \<and> exists (ps' (0, 6)) = 0 \<and> exists (ps' (1, 0)) = 0)"
proof -
  have g: "in_grid 0 5" "in_grid 0 6" "in_grid 1 0"
    by (simp_all add: in_grid_def COLS_val ROWS_val)
  from drawLine_row0_six_cells [of "\<lambda>n. n" 0 blank]
  obtain ps' k' where
    run: "drawLine (\<lambda>n. n) 0 (init_points blank) 0 0 5 0 = Some (Inr (ps', k'))" and
    one: "\<forall>row col. in_grid row col \<longrightarrow>
        (exists (ps' (row, col)) = 1) = (row = 0 \<and> 0 \<le> col \<and> col \<le> 5)" and
    nz: "\<forall>row col. in_grid row col \<longrightarrow>
        (exists (ps' (row, col)) \<noteq> 0) = (row = 0 \<and> 0 \<le> col \<and> col \<le> 5)"
    by blast
  have "exists (ps' (0, 5)) = 1"
    using one [rule_format, OF g(1)] by simp
  moreover have "exists (ps' (0, 6)) = 0"
    using nz [rule_format, OF g(2)] by simp
  moreover have "exists (ps' (1, 0)) = 0"
    using nz [rule_format, OF g(3)] by simp
  ultimately show ?thesis
    using run g by blast
qed

subsection \<open>The main loop\<close>

text \<open>
  Claim C2 (every frame applies the gravity rule to every occupied cell between painting
  and presenting), evaluated on the code. \<^verbatim>\<open>main\<close> never calls \<^verbatim>\<open>sandGravity\<close>: an
  iteration polls the events, paints if the button is held and presents. Input: a grid
  with one sand grain at column 1 of row 0 and nothing below it, the button up, no pending
  event. After the frame the state is what it was and the renderer was handed the grain at
  column 1 of row 0: the grain has not moved.
\<close>

theorem frame_applies_no_gravity:
  "frame (\<lambda>n. n)
     \<lparr>points = blank((0, 1) := grain sand), quit = 0, mouseHeld = False,
      prevX = - 1, prevY = - 1, rand_calls = 0\<rparr> [] (0, 0) =
   Some (Inr (\<lparr>points = blank((0, 1) := grain sand), quit = 0, mouseHeld = False,
               prevX = - 1, prevY = - 1, rand_calls = 0\<rparr>, [(1, 0, sand)])) \<and>
   exists ((blank((0, 1) := grain sand)) (1, 1)) = 0"
proof -
  have "(\<lambda>cell. exists ((blank((0, 1) := grain sand)) cell) = 1) = (\<lambda>cell. cell = (0, 1))"
    by (auto simp: blank_def grain_def)
  moreover have "(0, 1) \<in> set grid_cells"
    by (simp add: set_grid_cells in_grid_def COLS_val ROWS_val)
  ultimately have "drawAllPoints (blank((0, 1) := grain sand)) = [(1, 0, sand)]"
    by (simp add: drawAllPoints_def filter_single distinct_grid_cells grain_def)
  then show ?thesis
    by (simp add: frame_def exists_blank)
qed

end
